theory Spec2Isabelle
  imports Complex_Main
begin

section \<open>Values of the analysis scripts\<close>

subsection \<open>Floating-point numbers\<close>

text \<open>
  Every numeric column of a pandas frame in these scripts is a float64 column, and the
  scalar parsers return Python floats. A float is modelled by its value: a finite value is
  a rational, and the three special values are kept apart. Comparison, division,
  multiplication and addition follow IEEE 754 as numpy applies it to arrays: division by
  zero gives an infinity or NaN and never raises, every comparison with NaN is false, and
  a result whose magnitude reaches \<open>float_overflow\<close>, the least magnitude that rounds
  beyond the largest float64, is an infinity. Below that bound a result is kept exact:
  rounding to 53 bits and the sign of zero are outside this model.
\<close>

datatype pyfloat = Finite rat | PosInf | NegInf | NaN

definition float_overflow :: rat where
  "float_overflow = 2 ^ 1024 - 2 ^ 970"

text \<open>The float of an exact result.\<close>

definition fin :: "rat \<Rightarrow> pyfloat" where
  "fin q =
     (if float_overflow \<le> q then PosInf
      else if q \<le> - float_overflow then NegInf
      else Finite q)"

fun is_finite :: "pyfloat \<Rightarrow> bool" where
  "is_finite (Finite a) = True"
| "is_finite PosInf = False"
| "is_finite NegInf = False"
| "is_finite NaN = False"

fun fgt :: "pyfloat \<Rightarrow> pyfloat \<Rightarrow> bool" where
  "fgt NaN y = False"
| "fgt x NaN = False"
| "fgt (Finite a) (Finite b) = (b < a)"
| "fgt (Finite a) PosInf = False"
| "fgt (Finite a) NegInf = True"
| "fgt PosInf PosInf = False"
| "fgt PosInf y = True"
| "fgt NegInf y = False"

definition flt :: "pyfloat \<Rightarrow> pyfloat \<Rightarrow> bool" where
  "flt x y = fgt y x"

fun feq :: "pyfloat \<Rightarrow> pyfloat \<Rightarrow> bool" where
  "feq NaN y = False"
| "feq x NaN = False"
| "feq x y = (x = y)"

definition fge :: "pyfloat \<Rightarrow> pyfloat \<Rightarrow> bool" where
  "fge x y = (fgt x y \<or> feq x y)"

fun fdiv :: "pyfloat \<Rightarrow> pyfloat \<Rightarrow> pyfloat" where
  "fdiv NaN y = NaN"
| "fdiv x NaN = NaN"
| "fdiv (Finite a) (Finite b) =
     (if b = 0 then (if a = 0 then NaN else if 0 < a then PosInf else NegInf)
      else fin (a / b))"
| "fdiv (Finite a) PosInf = Finite 0"
| "fdiv (Finite a) NegInf = Finite 0"
| "fdiv PosInf (Finite b) = (if 0 \<le> b then PosInf else NegInf)"
| "fdiv NegInf (Finite b) = (if 0 \<le> b then NegInf else PosInf)"
| "fdiv PosInf y = NaN"
| "fdiv NegInf y = NaN"

fun fmul :: "pyfloat \<Rightarrow> pyfloat \<Rightarrow> pyfloat" where
  "fmul NaN y = NaN"
| "fmul x NaN = NaN"
| "fmul (Finite a) (Finite b) = fin (a * b)"
| "fmul (Finite a) PosInf = (if a = 0 then NaN else if 0 < a then PosInf else NegInf)"
| "fmul (Finite a) NegInf = (if a = 0 then NaN else if 0 < a then NegInf else PosInf)"
| "fmul PosInf (Finite b) = (if b = 0 then NaN else if 0 < b then PosInf else NegInf)"
| "fmul NegInf (Finite b) = (if b = 0 then NaN else if 0 < b then NegInf else PosInf)"
| "fmul PosInf PosInf = PosInf"
| "fmul PosInf NegInf = NegInf"
| "fmul NegInf PosInf = NegInf"
| "fmul NegInf NegInf = PosInf"

text \<open>\<^verbatim>\<open>np.where(cond, a, b)\<close>, at one position of the arrays: both \<open>a\<close> and \<open>b\<close> have
  been computed, the condition selects.\<close>

definition np_where :: "bool \<Rightarrow> pyfloat \<Rightarrow> pyfloat \<Rightarrow> pyfloat" where
  "np_where c a b = (if c then a else b)"

subsection \<open>Strings and cells\<close>

text \<open>
  A Python \<^verbatim>\<open>str\<close> is a sequence of Unicode code points. A cell of a frame holds a
  string, a float (a missing value is the float NaN) or a boolean.
\<close>

type_synonym ustring = "nat list"

datatype pycell = Str ustring | Num pyfloat | Bool bool

text \<open>\<^verbatim>\<open>isnull\<close> at one cell.\<close>

fun isnull :: "pycell \<Rightarrow> bool" where
  "isnull (Num NaN) = True"
| "isnull c = False"

text \<open>
  A column of strings as \<^verbatim>\<open>pd.read_csv\<close> leaves it (dtype object): each cell is the text
  of the field, or the float NaN where the field was empty.
\<close>

datatype csv_cell = Text ustring | Blank

definition asc :: "string \<Rightarrow> ustring" where
  "asc s = map of_char s"

text \<open>\<^verbatim>\<open>str.isspace\<close> at one code point: the characters \<^verbatim>\<open>str.strip()\<close> removes.\<close>

definition py_isspace :: "nat \<Rightarrow> bool" where
  "py_isspace c =
     ((9 \<le> c \<and> c \<le> 13) \<or> (28 \<le> c \<and> c \<le> 32) \<or> c = 133 \<or> c = 160 \<or> c = 5760 \<or>
      (8192 \<le> c \<and> c \<le> 8202) \<or> c = 8232 \<or> c = 8233 \<or> c = 8239 \<or> c = 8287 \<or>
      c = 12288)"

definition strip :: "ustring \<Rightarrow> ustring" where
  "strip s = rev (dropWhile py_isspace (rev (dropWhile py_isspace s)))"

text \<open>\<^verbatim>\<open>s.replace(c, '')\<close> for a one-character \<open>c\<close>, and for the two-character string
  \<open>ab\<close> (occurrences are found from the left and do not overlap).\<close>

definition remove_char :: "nat \<Rightarrow> ustring \<Rightarrow> ustring" where
  "remove_char c s = filter (\<lambda>x. x \<noteq> c) s"

fun remove_pair :: "nat \<Rightarrow> nat \<Rightarrow> ustring \<Rightarrow> ustring" where
  "remove_pair a b (x # y # zs) =
     (if x = a \<and> y = b then remove_pair a b zs else x # remove_pair a b (y # zs))"
| "remove_pair a b zs = zs"

subsection \<open>The builtins \<^verbatim>\<open>float\<close> and \<^verbatim>\<open>int\<close> on a string\<close>

text \<open>
  Both builtins drop white space at the two ends, read an optional sign and then a number
  in the grammar of the language reference: digits may be grouped by single underscores,
  a float has an optional fraction and exponent, or is one of the words inf, infinity and
  nan in any case. Anything else raises \<^verbatim>\<open>ValueError\<close>. The white space of the
  builtins is that of \<^verbatim>\<open>str.strip()\<close> without the four separators U+001C to U+001F. A
  float too large for float64 is an infinity; \<^verbatim>\<open>int\<close> raises \<^verbatim>\<open>ValueError\<close> for more
  than 4300 digits (the default limit of CPython 3.11). The decimal digits outside ASCII,
  which the builtins also read, are not digits of this model.
\<close>

datatype pyerror = ValueError | AttributeError | OverflowError | ZeroDivisionError

definition num_isspace :: "nat \<Rightarrow> bool" where
  "num_isspace c = (py_isspace c \<and> \<not> (28 \<le> c \<and> c \<le> 31))"

definition num_strip :: "ustring \<Rightarrow> ustring" where
  "num_strip s = rev (dropWhile num_isspace (rev (dropWhile num_isspace s)))"

definition is_digit :: "nat \<Rightarrow> bool" where
  "is_digit c = (48 \<le> c \<and> c \<le> 57)"

fun digitpart :: "ustring \<Rightarrow> bool" where
  "digitpart [] = False"
| "digitpart [c] = is_digit c"
| "digitpart (c # d # cs) =
     (is_digit c \<and> (if d = 95 then digitpart cs else digitpart (d # cs)))"

definition digits_value :: "ustring \<Rightarrow> nat" where
  "digits_value cs = foldl (\<lambda>a c. 10 * a + (c - 48)) 0 (filter is_digit cs)"

definition to_lower :: "nat \<Rightarrow> nat" where
  "to_lower c = (if 65 \<le> c \<and> c \<le> 90 then c + 32 else c)"

text \<open>The grammar of a float, over the test \<open>dp\<close> for a run of digits.\<close>

definition parse_exponent :: "(ustring \<Rightarrow> bool) \<Rightarrow> ustring \<Rightarrow> int option" where
  "parse_exponent dp s =
     (case s of
        [] \<Rightarrow> None
      | c # cs \<Rightarrow>
          if c = 45 then (if dp cs then Some (- int (digits_value cs)) else None)
          else if c = 43 then (if dp cs then Some (int (digits_value cs)) else None)
          else if dp s then Some (int (digits_value s)) else None)"

definition parse_mantissa :: "(ustring \<Rightarrow> bool) \<Rightarrow> ustring \<Rightarrow> rat option" where
  "parse_mantissa dp s =
     (let ip = takeWhile (\<lambda>c. c \<noteq> 46) s; rest = dropWhile (\<lambda>c. c \<noteq> 46) s in
      if rest = [] then (if dp ip then Some (of_nat (digits_value ip)) else None)
      else
        let fp = tl rest in
        if (ip = [] \<or> dp ip) \<and> (fp = [] \<or> dp fp) \<and> \<not> (ip = [] \<and> fp = [])
        then Some (of_nat (digits_value (ip @ fp)) / 10 ^ length (filter is_digit fp))
        else None)"

definition scale10 :: "rat \<Rightarrow> int \<Rightarrow> rat" where
  "scale10 m e = (if 0 \<le> e then m * 10 ^ nat e else m / 10 ^ nat (- e))"

definition parse_floatnumber :: "(ustring \<Rightarrow> bool) \<Rightarrow> ustring \<Rightarrow> rat option" where
  "parse_floatnumber dp s =
     (let m = takeWhile (\<lambda>c. c \<noteq> 101 \<and> c \<noteq> 69) s;
          rest = dropWhile (\<lambda>c. c \<noteq> 101 \<and> c \<noteq> 69) s in
      case parse_mantissa dp m of
        None \<Rightarrow> None
      | Some q \<Rightarrow>
          if rest = [] then Some q
          else (case parse_exponent dp (tl rest) of
                  None \<Rightarrow> None
                | Some e \<Rightarrow> Some (scale10 q e)))"

definition parse_absfloat :: "(ustring \<Rightarrow> bool) \<Rightarrow> ustring \<Rightarrow> pyfloat option" where
  "parse_absfloat dp s =
     (let l = map to_lower s in
      if l = asc ''inf'' \<or> l = asc ''infinity'' then Some PosInf
      else if l = asc ''nan'' then Some NaN
      else map_option fin (parse_floatnumber dp s))"

fun fneg :: "pyfloat \<Rightarrow> pyfloat" where
  "fneg (Finite a) = Finite (- a)"
| "fneg PosInf = NegInf"
| "fneg NegInf = PosInf"
| "fneg NaN = NaN"

definition parse_signed_float :: "(ustring \<Rightarrow> bool) \<Rightarrow> ustring \<Rightarrow> pyfloat option" where
  "parse_signed_float dp s =
     (case s of
        [] \<Rightarrow> None
      | c # cs \<Rightarrow>
          if c = 45 then map_option fneg (parse_absfloat dp cs)
          else if c = 43 then parse_absfloat dp cs
          else parse_absfloat dp (c # cs))"

definition py_float :: "ustring \<Rightarrow> pyerror + pyfloat" where
  "py_float s =
     (case parse_signed_float digitpart (num_strip s) of
        None \<Rightarrow> Inl ValueError
      | Some x \<Rightarrow> Inr x)"

definition int_max_str_digits :: nat where
  "int_max_str_digits = 4300"

definition parse_digits :: "ustring \<Rightarrow> nat option" where
  "parse_digits cs =
     (if digitpart cs \<and> length (filter is_digit cs) \<le> int_max_str_digits
      then Some (digits_value cs) else None)"

definition py_int :: "ustring \<Rightarrow> pyerror + int" where
  "py_int s =
     (let r = (case num_strip s of
                 [] \<Rightarrow> None
               | c # cs \<Rightarrow>
                   if c = 45 then map_option (\<lambda>n. - int n) (parse_digits cs)
                   else if c = 43 then map_option int (parse_digits cs)
                   else map_option int (parse_digits (c # cs)))
      in case r of None \<Rightarrow> Inl ValueError | Some n \<Rightarrow> Inr n)"

text \<open>
  Python's \<^verbatim>\<open>a / b\<close> on two integers: the quotient as a float, \<^verbatim>\<open>ZeroDivisionError\<close>
  for a zero divisor and \<^verbatim>\<open>OverflowError\<close> when the quotient is too large for a float.
\<close>

definition int_true_div :: "int \<Rightarrow> int \<Rightarrow> pyerror + pyfloat" where
  "int_true_div a b =
     (if b = 0 then Inl ZeroDivisionError
      else if float_overflow \<le> \<bar>of_int a / of_int b\<bar> then Inl OverflowError
      else Inr (Finite (of_int a / of_int b)))"

subsection \<open>Numbers as pandas reads them\<close>

text \<open>
  \<^verbatim>\<open>pd.to_numeric(..., errors='coerce')\<close> at one string: the number the text denotes, NaN
  where it denotes none. pandas reads numbers with a parser of its own, modelled here by
  the grammar of a float without underscores between the digits, between ASCII white
  space only. The same reading decides the dtype \<^verbatim>\<open>pd.read_csv\<close> gives a column: a
  column with rows is of dtype object, and has the \<^verbatim>\<open>.str\<close> accessor, only when one of
  its fields holds text that is no number.
\<close>

definition plain_digits :: "ustring \<Rightarrow> bool" where
  "plain_digits cs = (cs \<noteq> [] \<and> list_all is_digit cs)"

definition pd_isspace :: "nat \<Rightarrow> bool" where
  "pd_isspace c = ((9 \<le> c \<and> c \<le> 13) \<or> c = 32)"

definition pd_parse :: "ustring \<Rightarrow> pyfloat option" where
  "pd_parse s =
     parse_signed_float plain_digits
       (rev (dropWhile pd_isspace (rev (dropWhile pd_isspace s))))"

definition to_numeric_coerce :: "ustring \<Rightarrow> pyfloat" where
  "to_numeric_coerce s = (case pd_parse s of None \<Rightarrow> NaN | Some x \<Rightarrow> x)"

definition object_dtype :: "csv_cell list \<Rightarrow> bool" where
  "object_dtype col =
     (col = [] \<or> list_ex (\<lambda>c. case c of Blank \<Rightarrow> False | Text s \<Rightarrow> pd_parse s = None) col)"

section \<open>Cell parsers\<close>

subsection \<open>analyze-best-sellers.py\<close>

text \<open>
  \<^verbatim>\<open>parse_currency\<close> and \<^verbatim>\<open>parse_number\<close> receive a field of a \<^verbatim>\<open>csv.DictReader\<close> row:
  a string, or \<^verbatim>\<open>None\<close> for a field the line did not have. The \<^verbatim>\<open>re.sub\<close> removes the
  pound sign (code point 163) and the comma; the bare \<^verbatim>\<open>except\<close> catches every error of
  the conversion.
\<close>

definition parse_currency :: "ustring option \<Rightarrow> pyerror + pyfloat" where
  "parse_currency v =
     (case v of
        None \<Rightarrow> Inr (Finite 0)
      | Some val \<Rightarrow>
          if val = [] \<or> strip val = [] then Inr (Finite 0)
          else
            let cleaned = filter (\<lambda>c. c \<noteq> 163 \<and> c \<noteq> 44) (strip val) in
            (case py_float cleaned of Inr x \<Rightarrow> Inr x | Inl e \<Rightarrow> Inr (Finite 0)))"

definition parse_number :: "ustring option \<Rightarrow> pyerror + int" where
  "parse_number v =
     (case v of
        None \<Rightarrow> Inr 0
      | Some val \<Rightarrow>
          if val = [] \<or> strip val = [] then Inr 0
          else
            let cleaned = filter (\<lambda>c. c \<noteq> 44) (strip val) in
            (case py_int cleaned of Inr n \<Rightarrow> Inr n | Inl e \<Rightarrow> Inr 0))"

subsection \<open>weekly-sales-comparison.py\<close>

text \<open>
  \<^verbatim>\<open>parse_currency\<close> and \<^verbatim>\<open>parse_percentage\<close> of this script are applied to the cells of
  a frame column. The string the currency parser removes is the two characters
  U+00C2 U+00A3 (code points 194 and 163), as the source file has it, not the pound sign
  alone. Only \<^verbatim>\<open>ValueError\<close> is caught.
\<close>

definition weekly_parse_currency :: "csv_cell \<Rightarrow> pyerror + pyfloat" where
  "weekly_parse_currency v =
     (case v of
        Blank \<Rightarrow> Inr (Finite 0)
      | Text val \<Rightarrow>
          if val = [] then Inr (Finite 0)
          else
            let cleaned = strip (remove_char 44 (remove_pair 194 163 val)) in
            (case py_float cleaned of
               Inr x \<Rightarrow> Inr x
             | Inl ValueError \<Rightarrow> Inr (Finite 0)
             | Inl e \<Rightarrow> Inl e))"

definition parse_percentage :: "csv_cell \<Rightarrow> pyerror + pyfloat" where
  "parse_percentage v =
     (case v of
        Blank \<Rightarrow> Inr (Finite 0)
      | Text val \<Rightarrow>
          if val = [] then Inr (Finite 0)
          else
            let cleaned = strip (remove_char 37 val) in
            (case py_float cleaned of
               Inr x \<Rightarrow> Inr x
             | Inl ValueError \<Rightarrow> Inr (Finite 0)
             | Inl e \<Rightarrow> Inl e))"

subsection \<open>analyze\_business\_report.py\<close>

text \<open>
  The three cleaning functions work on whole columns; this is what they do to one cell.
  \<^verbatim>\<open>astype(str)\<close> turns the NaN of an empty field into the text nan, which
  \<^verbatim>\<open>.replace('nan', np.nan)\<close> turns back into NaN.
\<close>

definition astype_str :: "csv_cell \<Rightarrow> ustring" where
  "astype_str c = (case c of Text s \<Rightarrow> s | Blank \<Rightarrow> asc ''nan'')"

definition clean_percentage_cell :: "csv_cell \<Rightarrow> pyfloat" where
  "clean_percentage_cell c =
     (let s = remove_char 37 (astype_str c) in
      if s = asc ''nan'' then NaN else to_numeric_coerce s)"


definition clean_numeric_cell :: "csv_cell \<Rightarrow> pyfloat" where
  "clean_numeric_cell c = (case c of Blank \<Rightarrow> NaN | Text s \<Rightarrow> to_numeric_coerce s)"

section \<open>Derived metrics\<close>

text \<open>
  The three ratio columns of \<^verbatim>\<open>calculate_derived_metrics\<close>
  (analyze\_business\_report.py) and of \<^verbatim>\<open>calculate_metrics\<close> (analyze\_new\_report.py),
  which are the same three \<^verbatim>\<open>np.where\<close> expressions, at one row.
\<close>

definition conversion_rate_of :: "pyfloat \<Rightarrow> pyfloat \<Rightarrow> pyfloat" where
  "conversion_rate_of sessions units =
     np_where (fgt sessions (Finite 0)) (fmul (fdiv units sessions) (Finite 100)) (Finite 0)"

definition avg_order_value_of :: "pyfloat \<Rightarrow> pyfloat \<Rightarrow> pyfloat" where
  "avg_order_value_of units sales =
     np_where (fgt units (Finite 0)) (fdiv sales units) (Finite 0)"

definition revenue_per_session_of :: "pyfloat \<Rightarrow> pyfloat \<Rightarrow> pyfloat" where
  "revenue_per_session_of sessions sales =
     np_where (fgt sessions (Finite 0)) (fdiv sales sessions) (Finite 0)"

text \<open>
  The frame that reaches \<^verbatim>\<open>calculate_derived_metrics\<close> has been through the cleaning
  steps, so the four columns the function reads are float columns. Every other column of
  the frame (titles, SKUs, B2B figures, the columns \<^verbatim>\<open>extract_sku_info\<close> added) is kept,
  in frame order, in \<open>other_columns\<close>. The frame is the list of its rows.
\<close>

record report_row =
  sessions_total :: pyfloat
  units_ordered :: pyfloat
  sales_total :: pyfloat
  buy_box_percentage :: pyfloat
  other_columns :: "pycell list"

record metrics_row = report_row +
  conversion_rate :: pyfloat
  avg_order_value :: pyfloat
  revenue_per_session :: pyfloat
  buy_box_win_rate :: pyfloat

text \<open>
  \<^verbatim>\<open>calculate_derived_metrics\<close> assigns the new columns one after the other; each is
  computed from the cleaned columns only, so the frame is transformed row by row. The two
  boolean flags \<^verbatim>\<open>high_conversion\<close> and \<^verbatim>\<open>high_revenue\<close> (a comparison of a column
  with its own 0.75 quantile) are not part of the model: they are never null and are
  determined by the columns kept here.
\<close>

definition derive_row :: "report_row \<Rightarrow> metrics_row" where
  "derive_row r =
     \<lparr> sessions_total = sessions_total r,
       units_ordered = units_ordered r,
       sales_total = sales_total r,
       buy_box_percentage = buy_box_percentage r,
       other_columns = other_columns r,
       conversion_rate = conversion_rate_of (sessions_total r) (units_ordered r),
       avg_order_value = avg_order_value_of (units_ordered r) (sales_total r),
       revenue_per_session = revenue_per_session_of (sessions_total r) (sales_total r),
       buy_box_win_rate = buy_box_percentage r \<rparr>"

definition calculate_derived_metrics :: "report_row list \<Rightarrow> metrics_row list" where
  "calculate_derived_metrics df = map derive_row df"

section \<open>Data-quality report\<close>

text \<open>
  \<^verbatim>\<open>identify_data_quality_issues\<close> (analyze\_business\_report.py) returns a list of
  messages and does not assign to the frame. A message is modelled by a constructor:
  \<^item> \<open>MissingValues n\<close>: "Missing values found in n columns";
  \<^item> \<open>DuplicateRows n\<close>: "n duplicate rows found";
  \<^item> \<open>BuyBoxOver100\<close>: "Buy box percentages > 100% found";
  \<^item> \<open>ConversionOver100\<close>: "Conversion rates > 100% found";
  \<^item> \<open>NegativeValues col\<close>: "Negative values found in col".
\<close>

datatype issue =
    MissingValues nat
  | DuplicateRows nat
  | BuyBoxOver100
  | ConversionOver100
  | NegativeValues ustring

text \<open>The columns of the frame, each as the list of its cells.\<close>

definition frame_columns :: "metrics_row list \<Rightarrow> pycell list list" where
  "frame_columns df =
     [map (\<lambda>r. Num (sessions_total r)) df,
      map (\<lambda>r. Num (units_ordered r)) df,
      map (\<lambda>r. Num (sales_total r)) df,
      map (\<lambda>r. Num (buy_box_percentage r)) df,
      map (\<lambda>r. Num (conversion_rate r)) df,
      map (\<lambda>r. Num (avg_order_value r)) df,
      map (\<lambda>r. Num (revenue_per_session r)) df,
      map (\<lambda>r. Num (buy_box_win_rate r)) df]
     @ transpose (map other_columns df)"

text \<open>\<^verbatim>\<open>df.isnull().sum()\<close>: the number of nulls of each column.\<close>

definition missing_counts :: "metrics_row list \<Rightarrow> nat list" where
  "missing_counts df = map (\<lambda>col. length (filter isnull col)) (frame_columns df)"

text \<open>
  \<^verbatim>\<open>df.duplicated()\<close>: a row is marked when an equal row comes before it; two missing
  values in the same column count as equal.
\<close>

definition duplicated :: "'a list \<Rightarrow> bool list" where
  "duplicated df = map (\<lambda>i. df ! i \<in> set (take i df)) [0..<length df]"

definition identify_data_quality_issues :: "metrics_row list \<Rightarrow> issue list" where
  "identify_data_quality_issues df =
     (let counts = missing_counts df;
          issues1 = (if 0 < sum_list counts
                     then [MissingValues (length (filter (\<lambda>n. 0 < n) counts))] else []);
          duplicates = length (filter (\<lambda>b. b) (duplicated df));
          issues2 = issues1 @ (if 0 < duplicates then [DuplicateRows duplicates] else []);
          issues3 = issues2 @
            (if list_ex (\<lambda>r. fgt (buy_box_percentage r) (Finite 100)) df
             then [BuyBoxOver100] else []);
          issues4 = issues3 @
            (if list_ex (\<lambda>r. fgt (conversion_rate r) (Finite 100)) df
             then [ConversionOver100] else [])
      in issues4
         @ (if list_ex (\<lambda>r. flt (sessions_total r) (Finite 0)) df
            then [NegativeValues (asc ''sessions_total'')] else [])
         @ (if list_ex (\<lambda>r. flt (units_ordered r) (Finite 0)) df
            then [NegativeValues (asc ''units_ordered'')] else [])
         @ (if list_ex (\<lambda>r. flt (sales_total r) (Finite 0)) df
            then [NegativeValues (asc ''sales_total'')] else []))"

text \<open>The kinds of finding the specification names, and the kind of each message.\<close>

datatype issue_kind = MissingValue | Duplicate | OutOfRange | NegativeValue

fun kind_of :: "issue \<Rightarrow> issue_kind" where
  "kind_of (MissingValues n) = MissingValue"
| "kind_of (DuplicateRows n) = Duplicate"
| "kind_of BuyBoxOver100 = OutOfRange"
| "kind_of ConversionOver100 = OutOfRange"
| "kind_of (NegativeValues col) = NegativeValue"

definition issues_of_kind :: "issue_kind \<Rightarrow> issue list \<Rightarrow> issue list" where
  "issues_of_kind k issues = filter (\<lambda>i. kind_of i = k) issues"

section \<open>The loading step of enhanced\_traffic\_conversion\_analysis.py\<close>

text \<open>
  \<^verbatim>\<open>load_and_clean_data\<close> reads three columns of the frame. \<^verbatim>\<open>Series.astype(float)\<close>
  converts every cell of an object column with \<^verbatim>\<open>float\<close> and raises the first
  \<^verbatim>\<open>ValueError\<close>; nothing in the function or its caller catches it. The other columns
  of the frame pass through and are left out.
\<close>

record traffic_row =
  tr_sessions :: csv_cell
  tr_units :: csv_cell
  tr_sales :: csv_cell

record traffic_clean =
  tc_sessions :: pyfloat
  tc_units :: pyfloat
  tc_sales :: pyfloat
  tc_conversion_rate :: pyfloat
  tc_aov :: pyfloat

fun collect :: "(pyerror + 'a) list \<Rightarrow> pyerror + 'a list" where
  "collect [] = Inr []"
| "collect (x # xs) =
     (case x of
        Inl e \<Rightarrow> Inl e
      | Inr v \<Rightarrow> (case collect xs of Inl e \<Rightarrow> Inl e | Inr vs \<Rightarrow> Inr (v # vs)))"

definition cell_to_float :: "csv_cell \<Rightarrow> pyerror + pyfloat" where
  "cell_to_float c = (case c of Blank \<Rightarrow> Inr NaN | Text s \<Rightarrow> py_float s)"

definition astype_float :: "csv_cell list \<Rightarrow> pyerror + pyfloat list" where
  "astype_float col = collect (map cell_to_float col)"

text \<open>\<^verbatim>\<open>.str.replace(c, '')\<close> at one cell: a missing cell stays missing.\<close>

definition str_remove_char :: "nat \<Rightarrow> csv_cell \<Rightarrow> csv_cell" where
  "str_remove_char c cell = (case cell of Blank \<Rightarrow> Blank | Text s \<Rightarrow> Text (remove_char c s))"

text \<open>
  The two ratios are rounded with \<^verbatim>\<open>.round(2)\<close>, which works on the binary value of a
  float; the function \<open>rnd\<close> stands for it. A column that is not of dtype object has no
  \<^verbatim>\<open>.str\<close> accessor: the sales line raises \<^verbatim>\<open>AttributeError\<close> there.
\<close>

definition traffic_metrics ::
  "(pyfloat \<Rightarrow> pyfloat) \<Rightarrow> pyfloat \<times> pyfloat \<times> pyfloat \<Rightarrow> traffic_clean" where
  "traffic_metrics rnd t =
     (case t of (sessions, units, sales) \<Rightarrow>
        \<lparr> tc_sessions = sessions, tc_units = units, tc_sales = sales,
          tc_conversion_rate = rnd (fmul (fdiv units sessions) (Finite 100)),
          tc_aov = rnd (fdiv sales units) \<rparr>)"

definition load_and_clean_data ::
  "(pyfloat \<Rightarrow> pyfloat) \<Rightarrow> traffic_row list \<Rightarrow> pyerror + traffic_clean list" where
  "load_and_clean_data rnd df =
     (case astype_float (map (\<lambda>r. Text (remove_char 44 (astype_str (tr_sessions r)))) df) of
        Inl e \<Rightarrow> Inl e
      | Inr sessions \<Rightarrow>
     (case astype_float (map tr_units df) of
        Inl e \<Rightarrow> Inl e
      | Inr units \<Rightarrow>
     (if \<not> object_dtype (map tr_sales df) then Inl AttributeError
      else
     (case astype_float (map (\<lambda>r. str_remove_char 44 (str_remove_char 163 (tr_sales r))) df) of
        Inl e \<Rightarrow> Inl e
      | Inr sales \<Rightarrow>
          Inr (filter (\<lambda>r. is_finite (tc_aov r))
                (filter (\<lambda>r. is_finite (tc_conversion_rate r))
                   (map (traffic_metrics rnd) (zip sessions (zip units sales)))))))))"

section \<open>The row loop of analyze-best-sellers.py\<close>

text \<open>
  A row of \<^verbatim>\<open>csv.DictReader\<close> maps each header to the text of its field, or to
  \<^verbatim>\<open>None\<close> when the line was shorter than the header. \<^verbatim>\<open>row.get(key, default)\<close> gives
  the default only when the header is absent, so \<^verbatim>\<open>.strip()\<close> on a \<^verbatim>\<open>None\<close> field raises
  \<^verbatim>\<open>AttributeError\<close>, which ends the script.
\<close>

type_synonym csv_row = "(ustring \<times> ustring option) list"

definition row_get :: "csv_row \<Rightarrow> ustring \<Rightarrow> ustring \<Rightarrow> ustring option" where
  "row_get row key dflt = (case map_of row key of None \<Rightarrow> Some dflt | Some v \<Rightarrow> v)"

definition strip_field :: "ustring option \<Rightarrow> pyerror + ustring" where
  "strip_field v = (case v of None \<Rightarrow> Inl AttributeError | Some s \<Rightarrow> Inr (strip s))"

definition and_then :: "pyerror + 'a \<Rightarrow> ('a \<Rightarrow> pyerror + 'b) \<Rightarrow> pyerror + 'b" where
  "and_then x f = (case x of Inl e \<Rightarrow> Inl e | Inr v \<Rightarrow> f v)"

fun fadd :: "pyfloat \<Rightarrow> pyfloat \<Rightarrow> pyfloat" where
  "fadd NaN y = NaN"
| "fadd x NaN = NaN"
| "fadd (Finite a) (Finite b) = fin (a + b)"
| "fadd (Finite a) y = y"
| "fadd x (Finite b) = x"
| "fadd PosInf PosInf = PosInf"
| "fadd NegInf NegInf = NegInf"
| "fadd PosInf NegInf = NaN"
| "fadd NegInf PosInf = NaN"

record product =
  parent_asin :: ustring
  child_asin :: ustring
  sku :: ustring
  title :: ustring
  p_units_ordered :: int
  sales_value :: pyfloat
  sessions :: int
  p_conversion_rate :: pyfloat

definition en_dash :: nat where
  "en_dash = 8211"

text \<open>The numbers of a row: the parsing of lines 40 to 50, which gives the total
  units, the total sales and the total sessions.\<close>

definition row_totals :: "csv_row \<Rightarrow> pyerror + (int \<times> pyfloat \<times> int)" where
  "row_totals row =
     and_then (parse_number (row_get row (asc ''Units ordered'') (asc ''0''))) (\<lambda>units.
     and_then (parse_number (row_get row
        (asc ''Units ordered '' @ [en_dash] @ asc '' B2B'') (asc ''0''))) (\<lambda>units_b2b.
     and_then (parse_currency (row_get row
        (asc ''Ordered Product Sales'') ([163] @ asc ''0''))) (\<lambda>sales.
     and_then (parse_currency (row_get row
        (asc ''Ordered product sales '' @ [en_dash] @ asc '' B2B'') ([163] @ asc ''0''))) (\<lambda>sales_b2b.
     and_then (parse_number (row_get row
        (asc ''Sessions '' @ [en_dash] @ asc '' Total'') (asc ''0''))) (\<lambda>sess.
     and_then (parse_number (row_get row
        (asc ''Sessions '' @ [en_dash] @ asc '' Total '' @ [en_dash] @ asc '' B2B'') (asc ''0'')))
       (\<lambda>sess_b2b.
        Inr (units + units_b2b, fadd sales sales_b2b, sess + sess_b2b)))))))"

text \<open>The conversion rate of the appended record:
  \<^verbatim>\<open>(total_units / total_sessions * 100) if total_sessions > 0 else 0\<close>.\<close>

definition product_conversion_rate :: "int \<Rightarrow> int \<Rightarrow> pyerror + pyfloat" where
  "product_conversion_rate total_units total_sessions =
     (if 0 < total_sessions
      then and_then (int_true_div total_units total_sessions) (\<lambda>q. Inr (fmul q (Finite 100)))
      else Inr (Finite 0))"

text \<open>One pass of the loop body: an error, \<open>None\<close> for \<^verbatim>\<open>continue\<close>, or the record
  appended to \<^verbatim>\<open>products\<close>.\<close>

definition process_row :: "csv_row \<Rightarrow> pyerror + product option" where
  "process_row row =
     and_then (strip_field (row_get row (asc ''(Parent) ASIN'') [])) (\<lambda>parent.
     and_then (strip_field (row_get row (asc ''(Child) ASIN'') [])) (\<lambda>child.
     and_then (strip_field (row_get row (asc ''SKU'') [])) (\<lambda>sk.
     and_then (strip_field (row_get row (asc ''Title'') [])) (\<lambda>ttl.
     and_then (row_totals row) (\<lambda>totals.
       case totals of (total_units, total_sales, total_sessions) \<Rightarrow>
         if sk = [] \<or> child = [] then Inr None
         else
           and_then (product_conversion_rate total_units total_sessions) (\<lambda>rate.
             Inr (Some
               \<lparr> parent_asin = parent, child_asin = child, sku = sk, title = ttl,
                 p_units_ordered = total_units, sales_value = total_sales,
                 sessions = total_sessions, p_conversion_rate = rate \<rparr>)))))))"

fun read_products :: "csv_row list \<Rightarrow> pyerror + product list" where
  "read_products [] = Inr []"
| "read_products (row # rows) =
     (case process_row row of
        Inl e \<Rightarrow> Inl e
      | Inr None \<Rightarrow> read_products rows
      | Inr (Some p) \<Rightarrow>
          (case read_products rows of Inl e \<Rightarrow> Inl e | Inr ps \<Rightarrow> Inr (p # ps)))"

text \<open>The two tests of the loop's \<^verbatim>\<open>continue\<close>, on a row.\<close>

definition lacks_sku :: "csv_row \<Rightarrow> bool" where
  "lacks_sku row = (case row_get row (asc ''SKU'') [] of None \<Rightarrow> False | Some s \<Rightarrow> strip s = [])"

definition lacks_child_asin :: "csv_row \<Rightarrow> bool" where
  "lacks_child_asin row =
     (case row_get row (asc ''(Child) ASIN'') [] of None \<Rightarrow> False | Some s \<Rightarrow> strip s = [])"

text \<open>The four fields the loop strips are strings, not \<^verbatim>\<open>None\<close>.\<close>

definition text_fields_present :: "csv_row \<Rightarrow> bool" where
  "text_fields_present row =
     (row_get row (asc ''(Parent) ASIN'') [] \<noteq> None
      \<and> row_get row (asc ''(Child) ASIN'') [] \<noteq> None
      \<and> row_get row (asc ''SKU'') [] \<noteq> None
      \<and> row_get row (asc ''Title'') [] \<noteq> None)"

text \<open>The quotient of the total units by the total sessions of a row, where the
  sessions are positive, is within the range of a float.\<close>

definition quotient_fits :: "csv_row \<Rightarrow> bool" where
  "quotient_fits row =
     (case row_totals row of
        Inl e \<Rightarrow> True
      | Inr (total_units, total_sales, total_sessions) \<Rightarrow>
          0 < total_sessions \<longrightarrow>
            \<bar>of_int total_units / of_int total_sessions\<bar> < float_overflow)"

section \<open>Properties\<close>

subsection \<open>Evaluation of the parsers\<close>

lemma float_overflow_pos: "0 < float_overflow"
proof -
  have "(2::rat) ^ 970 < 2 ^ 1024"
    by (rule power_strict_increasing) simp_all
  then show ?thesis
    by (simp add: float_overflow_def)
qed


lemma fin_Finite: "\<bar>q\<bar> < float_overflow \<Longrightarrow> fin q = Finite q"
  by (auto simp: fin_def)

lemma fin_small: "\<bar>q\<bar> \<le> 1000000000 \<Longrightarrow> fin q = Finite q"
proof -
  assume "\<bar>q\<bar> \<le> 1000000000"
  moreover have "(1000000000::rat) < float_overflow"
    by (simp add: float_overflow_def)
  ultimately show ?thesis
    by (simp add: fin_Finite)
qed

lemma fin_cases:
  "fin q = Finite q \<and> \<bar>q\<bar> < float_overflow \<or> fin q = PosInf \<and> float_overflow \<le> q
   \<or> fin q = NegInf \<and> q \<le> - float_overflow"
  using float_overflow_pos by (auto simp: fin_def)


lemmas parser_defs =
  asc_def strip_def py_isspace_def is_digit_def remove_char_def py_float_def py_int_def
  num_strip_def num_isspace_def parse_signed_float_def parse_digits_def int_max_str_digits_def
  parse_absfloat_def parse_floatnumber_def parse_mantissa_def parse_exponent_def scale10_def
  digits_value_def to_lower_def astype_str_def fin_small
  to_numeric_coerce_def pd_parse_def pd_isspace_def plain_digits_def

subsection \<open>Lemmas on the derived columns\<close>

lemma derive_row_simps:
  "sessions_total (derive_row r) = sessions_total r"
  "units_ordered (derive_row r) = units_ordered r"
  "sales_total (derive_row r) = sales_total r"
  "buy_box_percentage (derive_row r) = buy_box_percentage r"
  "other_columns (derive_row r) = other_columns r"
  "conversion_rate (derive_row r) = conversion_rate_of (sessions_total r) (units_ordered r)"
  "avg_order_value (derive_row r) = avg_order_value_of (units_ordered r) (sales_total r)"
  "revenue_per_session (derive_row r) = revenue_per_session_of (sessions_total r) (sales_total r)"
  "buy_box_win_rate (derive_row r) = buy_box_percentage r"
  by (simp_all add: derive_row_def)

lemma fge_zero_cases:
  "fge x (Finite 0) = (x = PosInf \<or> (\<exists>a. x = Finite a \<and> 0 \<le> a))"
  by (cases x) (auto simp: fge_def)

lemma fin_nonneg: "0 \<le> q \<Longrightarrow> fge (fin q) (Finite 0)"
  using fin_cases [of q] float_overflow_pos by (auto simp: fge_zero_cases)

lemma fmul_fin_nonneg: "0 \<le> q \<Longrightarrow> fge (fmul (fin q) (Finite 100)) (Finite 0)"
proof -
  assume q: "0 \<le> q"
  then have "fge (fin (q * 100)) (Finite 0)"
    by (simp add: fin_nonneg)
  then show ?thesis
    using q fin_cases [of q] float_overflow_pos by (auto simp: fge_zero_cases)
qed

lemma conversion_rate_nonneg:
  assumes "fge s (Finite 0)" "fge u (Finite 0)" "\<not> (s = PosInf \<and> u = PosInf)"
  shows "fge (conversion_rate_of s u) (Finite 0)"
proof -
  consider (ff) a b where "s = Finite b" "u = Finite a" "0 \<le> b" "0 \<le> a"
    | (pf) a where "s = PosInf" "u = Finite a" "0 \<le> a"
    | (fp) b where "s = Finite b" "u = PosInf" "0 \<le> b"
    using assms by (auto simp: fge_zero_cases)
  then show ?thesis
  proof cases
    case ff
    then have "0 \<le> a / b"
      by simp
    then show ?thesis
      using ff fmul_fin_nonneg [of "a / b"]
      by (simp add: conversion_rate_of_def np_where_def fge_zero_cases)
  next
    case pf
    then show ?thesis
      using fin_nonneg [of 0] by (simp add: conversion_rate_of_def np_where_def)
  next
    case fp
    then show ?thesis
      by (simp add: conversion_rate_of_def np_where_def fge_zero_cases)
  qed
qed

subsection \<open>Guards of the derived metrics\<close>

text \<open>
  Claim C1, as amended. For every row: the conversion rate is \<open>(units / sessions) * 100\<close>
  when sessions is greater than zero, and exactly 0 when sessions is 0, whatever units is;
  the average order value is exactly 0 when units is 0, whatever the sales total is; the
  revenue per session is exactly 0 when sessions is 0; and the conversion rate is not
  negative when sessions and units are not negative and are not both infinite.
\<close>

theorem derived_metrics_guards:
  "(fgt (sessions_total r) (Finite 0) \<longrightarrow>
      conversion_rate (derive_row r) =
        fmul (fdiv (units_ordered r) (sessions_total r)) (Finite 100))
   \<and> (sessions_total r = Finite 0 \<longrightarrow> conversion_rate (derive_row r) = Finite 0)
   \<and> (units_ordered r = Finite 0 \<longrightarrow> avg_order_value (derive_row r) = Finite 0)
   \<and> (sessions_total r = Finite 0 \<longrightarrow> revenue_per_session (derive_row r) = Finite 0)
   \<and> (fge (sessions_total r) (Finite 0) \<and> fge (units_ordered r) (Finite 0)
        \<and> \<not> (sessions_total r = PosInf \<and> units_ordered r = PosInf) \<longrightarrow>
      fge (conversion_rate (derive_row r)) (Finite 0))"
  by (simp add: derive_row_simps conversion_rate_nonneg)
     (simp add: conversion_rate_of_def avg_order_value_of_def revenue_per_session_of_def
        np_where_def)

text \<open>The theorem at a row with 200 sessions, 50 units and sales of 1000, and at a row
  without sessions and units.\<close>

theorem derived_metrics_guards_witness:
  "fgt (Finite 200) (Finite 0) \<and> fge (Finite 200) (Finite 0) \<and> fge (Finite 50) (Finite 0)
   \<and> conversion_rate (derive_row
         \<lparr>sessions_total = Finite 200, units_ordered = Finite 50, sales_total = Finite 1000,
          buy_box_percentage = Finite 0, other_columns = []\<rparr>) = Finite 25
   \<and> fge (conversion_rate (derive_row
         \<lparr>sessions_total = Finite 200, units_ordered = Finite 50, sales_total = Finite 1000,
          buy_box_percentage = Finite 0, other_columns = []\<rparr>)) (Finite 0)
   \<and> conversion_rate (derive_row
         \<lparr>sessions_total = Finite 0, units_ordered = Finite 0, sales_total = Finite 1000,
          buy_box_percentage = Finite 0, other_columns = []\<rparr>) = Finite 0
   \<and> avg_order_value (derive_row
         \<lparr>sessions_total = Finite 0, units_ordered = Finite 0, sales_total = Finite 1000,
          buy_box_percentage = Finite 0, other_columns = []\<rparr>) = Finite 0
   \<and> revenue_per_session (derive_row
         \<lparr>sessions_total = Finite 0, units_ordered = Finite 0, sales_total = Finite 1000,
          buy_box_percentage = Finite 0, other_columns = []\<rparr>) = Finite 0"
  using derived_metrics_guards
      [of "\<lparr>sessions_total = Finite 200, units_ordered = Finite 50, sales_total = Finite 1000,
          buy_box_percentage = Finite 0, other_columns = []\<rparr>"]
    derived_metrics_guards
      [of "\<lparr>sessions_total = Finite 0, units_ordered = Finite 0, sales_total = Finite 1000,
          buy_box_percentage = Finite 0, other_columns = []\<rparr>"]
  by (simp add: fge_def fin_small)

text \<open>
  Claim C1 as stated fails where sessions and units are both infinite, which is what
  \<^verbatim>\<open>pd.to_numeric\<close> makes of the text inf: both are not negative, the quotient is NaN
  and NaN is not greater than or equal to 0.
\<close>

theorem conversion_rate_inf_counterexample:
  "fge (sessions_total
         \<lparr>sessions_total = PosInf, units_ordered = PosInf, sales_total = Finite 0,
          buy_box_percentage = Finite 0, other_columns = []\<rparr>) (Finite 0)
   \<and> fge (units_ordered
         \<lparr>sessions_total = PosInf, units_ordered = PosInf, sales_total = Finite 0,
          buy_box_percentage = Finite 0, other_columns = []\<rparr>) (Finite 0)
   \<and> \<not> fge (conversion_rate (derive_row
         \<lparr>sessions_total = PosInf, units_ordered = PosInf, sales_total = Finite 0,
          buy_box_percentage = Finite 0, other_columns = []\<rparr>)) (Finite 0)"
  by (simp add: derive_row_simps conversion_rate_of_def np_where_def fge_def)

subsection \<open>Finiteness of the derived metrics\<close>




subsection \<open>Missing denominators\<close>

text \<open>
  Claim C10. A row whose sessions value is NaN has conversion rate 0 and revenue per
  session 0, and a row whose units value is NaN has average order value 0: the same values
  as the row with 0 in that place, since the comparison of NaN with 0 is false.
\<close>

theorem missing_denominator_gives_zero:
  "(sessions_total r = NaN \<longrightarrow>
      conversion_rate (derive_row r) = Finite 0 \<and> revenue_per_session (derive_row r) = Finite 0
      \<and> conversion_rate (derive_row r) = conversion_rate (derive_row (r\<lparr>sessions_total := Finite 0\<rparr>))
      \<and> revenue_per_session (derive_row r) = revenue_per_session (derive_row (r\<lparr>sessions_total := Finite 0\<rparr>)))
   \<and> (units_ordered r = NaN \<longrightarrow>
      avg_order_value (derive_row r) = Finite 0
      \<and> avg_order_value (derive_row r) = avg_order_value (derive_row (r\<lparr>units_ordered := Finite 0\<rparr>)))"
  by (simp add: derive_row_simps conversion_rate_of_def avg_order_value_of_def
        revenue_per_session_of_def np_where_def)

text \<open>The theorem at a row whose sessions cell was the text n/a and whose units cell was
  empty, as \<^verbatim>\<open>clean_numeric_columns\<close> leaves them.\<close>

theorem missing_denominator_gives_zero_witness:
  "clean_numeric_cell (Text (asc ''n/a'')) = NaN \<and> clean_numeric_cell Blank = NaN
   \<and> conversion_rate (derive_row
      \<lparr>sessions_total = clean_numeric_cell (Text (asc ''n/a'')),
       units_ordered = clean_numeric_cell Blank, sales_total = Finite 1000,
       buy_box_percentage = Finite 0, other_columns = []\<rparr>) = Finite 0
   \<and> revenue_per_session (derive_row
      \<lparr>sessions_total = clean_numeric_cell (Text (asc ''n/a'')),
       units_ordered = clean_numeric_cell Blank, sales_total = Finite 1000,
       buy_box_percentage = Finite 0, other_columns = []\<rparr>) = Finite 0
   \<and> avg_order_value (derive_row
      \<lparr>sessions_total = clean_numeric_cell (Text (asc ''n/a'')),
       units_ordered = clean_numeric_cell Blank, sales_total = Finite 1000,
       buy_box_percentage = Finite 0, other_columns = []\<rparr>) = Finite 0"
proof -
  have c: "clean_numeric_cell (Text (asc ''n/a'')) = NaN" "clean_numeric_cell Blank = NaN"
    by (simp_all add: clean_numeric_cell_def parser_defs)
  show ?thesis
    using missing_denominator_gives_zero
      [of "\<lparr>sessions_total = NaN, units_ordered = NaN, sales_total = Finite 1000,
            buy_box_percentage = Finite 0, other_columns = []\<rparr>"]
    by (simp add: c)
qed

subsection \<open>Lemmas on the data-quality report\<close>

lemma calc_nth: "i < length df \<Longrightarrow> calculate_derived_metrics df ! i = derive_row (df ! i)"
  by (simp add: calculate_derived_metrics_def)

lemma calc_length: "length (calculate_derived_metrics df) = length df"
  by (simp add: calculate_derived_metrics_def)

lemma list_ex_nth: "i < length xs \<Longrightarrow> P (xs ! i) \<Longrightarrow> list_ex P xs"
  by (auto simp: list_ex_iff)

lemma issues_filter_buybox:
  "filter (\<lambda>i. i = BuyBoxOver100) (identify_data_quality_issues df) =
     (if list_ex (\<lambda>r. fgt (buy_box_percentage r) (Finite 100)) df then [BuyBoxOver100] else [])"
  by (simp add: identify_data_quality_issues_def Let_def)

lemma issues_filter_conv:
  "filter (\<lambda>i. i = ConversionOver100) (identify_data_quality_issues df) =
     (if list_ex (\<lambda>r. fgt (conversion_rate r) (Finite 100)) df then [ConversionOver100] else [])"
  by (simp add: identify_data_quality_issues_def Let_def)

lemma issues_out_of_range:
  "issues_of_kind OutOfRange (identify_data_quality_issues df) =
     (if list_ex (\<lambda>r. fgt (buy_box_percentage r) (Finite 100)) df then [BuyBoxOver100] else [])
     @ (if list_ex (\<lambda>r. fgt (conversion_rate r) (Finite 100)) df then [ConversionOver100] else [])"
  by (simp add: identify_data_quality_issues_def issues_of_kind_def Let_def)

lemma issues_duplicate:
  "issues_of_kind Duplicate (identify_data_quality_issues df) =
     (if 0 < length (filter (\<lambda>b. b) (duplicated df))
      then [DuplicateRows (length (filter (\<lambda>b. b) (duplicated df)))] else [])"
  by (simp add: identify_data_quality_issues_def issues_of_kind_def Let_def)

lemma duplicated_pos:
  assumes "i < j" "j < length df" "df ! i = df ! j"
  shows "0 < length (filter (\<lambda>b. b) (duplicated df))"
proof -
  have "df ! j \<in> set (take j df)"
    using assms by (metis in_set_conv_nth length_take min.absorb2 nth_take less_imp_le_nat)
  then have "True \<in> set (duplicated df)"
    using assms(2) by (auto simp: duplicated_def intro!: image_eqI [where x = j])
  then show ?thesis
    by (auto simp: filter_empty_conv)
qed

subsection \<open>Out-of-range percentages\<close>

text \<open>
  Claim C7, as amended. \<^verbatim>\<open>calculate_derived_metrics\<close> and
  \<^verbatim>\<open>identify_data_quality_issues\<close> have no failing branch, the frame keeps every row in
  its place and the buy-box percentage of a row is the value it had. The report holds one
  out-of-range message for each of the two checked columns that has a value above 100,
  whatever the number of rows out of range: exactly one buy-box message when a row has a
  buy-box percentage above 100, exactly one conversion-rate message when a row has a
  conversion rate above 100, and so two out-of-range messages when a row is above 100 in
  both.
\<close>

theorem out_of_range_flagged_per_column:
  assumes "i < length df"
  shows "length (calculate_derived_metrics df) = length df
    \<and> buy_box_percentage (calculate_derived_metrics df ! i) = buy_box_percentage (df ! i)
    \<and> (fgt (buy_box_percentage (df ! i)) (Finite 100) \<longrightarrow>
          filter (\<lambda>x. x = BuyBoxOver100)
            (identify_data_quality_issues (calculate_derived_metrics df)) = [BuyBoxOver100])
    \<and> (fgt (conversion_rate (calculate_derived_metrics df ! i)) (Finite 100) \<longrightarrow>
          filter (\<lambda>x. x = ConversionOver100)
            (identify_data_quality_issues (calculate_derived_metrics df)) = [ConversionOver100])
    \<and> issues_of_kind OutOfRange (identify_data_quality_issues (calculate_derived_metrics df)) =
          (if list_ex (\<lambda>m. fgt (buy_box_percentage m) (Finite 100)) (calculate_derived_metrics df)
           then [BuyBoxOver100] else [])
          @ (if list_ex (\<lambda>m. fgt (conversion_rate m) (Finite 100)) (calculate_derived_metrics df)
             then [ConversionOver100] else [])
    \<and> (fgt (buy_box_percentage (df ! i)) (Finite 100)
          \<and> fgt (conversion_rate (calculate_derived_metrics df ! i)) (Finite 100) \<longrightarrow>
          issues_of_kind OutOfRange
            (identify_data_quality_issues (calculate_derived_metrics df)) =
            [BuyBoxOver100, ConversionOver100])"
proof -
  let ?out = "calculate_derived_metrics df"
  have n: "i < length ?out" using assms by (simp add: calc_length)
  have bb: "buy_box_percentage (?out ! i) = buy_box_percentage (df ! i)"
    using assms by (simp add: calc_nth derive_row_simps)
  have a: "fgt (buy_box_percentage (df ! i)) (Finite 100) \<Longrightarrow>
      list_ex (\<lambda>r. fgt (buy_box_percentage r) (Finite 100)) ?out"
    using list_ex_nth [OF n, of "\<lambda>r. fgt (buy_box_percentage r) (Finite 100)"] bb by simp
  have b: "fgt (conversion_rate (?out ! i)) (Finite 100) \<Longrightarrow>
      list_ex (\<lambda>r. fgt (conversion_rate r) (Finite 100)) ?out"
    using list_ex_nth [OF n, of "\<lambda>r. fgt (conversion_rate r) (Finite 100)"] by simp
  show ?thesis
    using a b bb by (simp add: calc_length issues_filter_buybox issues_filter_conv issues_out_of_range)
qed

text \<open>The theorem at three one-row frames: a buy-box percentage of 150 with 5 units in
  10 sessions, 3 units in 2 sessions with a buy-box percentage of 90, and both.\<close>

theorem out_of_range_flagged_per_column_witness:
  "(0::nat) < length 
        [\<lparr>sessions_total = Finite 10, units_ordered = Finite 5, sales_total = Finite 20,
          buy_box_percentage = Finite 150, other_columns = []\<rparr>]
   \<and> buy_box_percentage (calculate_derived_metrics 
        [\<lparr>sessions_total = Finite 10, units_ordered = Finite 5, sales_total = Finite 20,
          buy_box_percentage = Finite 150, other_columns = []\<rparr>] ! 0) = Finite 150
   \<and> issues_of_kind OutOfRange
         (identify_data_quality_issues (calculate_derived_metrics 
        [\<lparr>sessions_total = Finite 10, units_ordered = Finite 5, sales_total = Finite 20,
          buy_box_percentage = Finite 150, other_columns = []\<rparr>])) = [BuyBoxOver100]
   \<and> fgt (conversion_rate (calculate_derived_metrics 
        [\<lparr>sessions_total = Finite 2, units_ordered = Finite 3, sales_total = Finite 20,
          buy_box_percentage = Finite 90, other_columns = []\<rparr>] ! 0)) (Finite 100)
   \<and> issues_of_kind OutOfRange
         (identify_data_quality_issues (calculate_derived_metrics 
        [\<lparr>sessions_total = Finite 2, units_ordered = Finite 3, sales_total = Finite 20,
          buy_box_percentage = Finite 90, other_columns = []\<rparr>])) = [ConversionOver100]
   \<and> issues_of_kind OutOfRange
         (identify_data_quality_issues (calculate_derived_metrics 
        [\<lparr>sessions_total = Finite 2, units_ordered = Finite 3, sales_total = Finite 20,
          buy_box_percentage = Finite 150, other_columns = []\<rparr>])) =
         [BuyBoxOver100, ConversionOver100]"
  using out_of_range_flagged_per_column [of 0 "
        [\<lparr>sessions_total = Finite 10, units_ordered = Finite 5, sales_total = Finite 20,
          buy_box_percentage = Finite 150, other_columns = []\<rparr>]"]
    out_of_range_flagged_per_column [of 0 "
        [\<lparr>sessions_total = Finite 2, units_ordered = Finite 3, sales_total = Finite 20,
          buy_box_percentage = Finite 90, other_columns = []\<rparr>]"]
    out_of_range_flagged_per_column [of 0 "
        [\<lparr>sessions_total = Finite 2, units_ordered = Finite 3, sales_total = Finite 20,
          buy_box_percentage = Finite 150, other_columns = []\<rparr>]"]
  by (simp add: calculate_derived_metrics_def derive_row_simps conversion_rate_of_def
        np_where_def fin_small)

text \<open>
  Claim C7 as stated fails at a frame of one row with a buy-box percentage of 150 and 3
  units in 2 sessions: the row is out of range in both checked columns and the report
  holds two out-of-range messages, not exactly one.
\<close>

theorem two_out_of_range_issues_counterexample:
  "fgt (buy_box_percentage
         \<lparr>sessions_total = Finite 2, units_ordered = Finite 3, sales_total = Finite 20,
          buy_box_percentage = Finite 150, other_columns = []\<rparr>) (Finite 100)
   \<and> length (issues_of_kind OutOfRange
         (identify_data_quality_issues (calculate_derived_metrics 
        [\<lparr>sessions_total = Finite 2, units_ordered = Finite 3, sales_total = Finite 20,
          buy_box_percentage = Finite 150, other_columns = []\<rparr>]))) = 2"
  by (simp add: issues_out_of_range calculate_derived_metrics_def derive_row_simps
        conversion_rate_of_def np_where_def fin_small)

subsection \<open>Duplicate rows\<close>

text \<open>
  Claim C8. When two rows of the frame are equal in every column, the report holds exactly
  one duplicate message, and both rows are in the frame that is returned, each in its
  place: nothing is dropped.
\<close>

theorem duplicate_flagged_once_rows_kept:
  assumes "i < j" "j < length df" "df ! i = df ! j"
  shows "length (issues_of_kind Duplicate
           (identify_data_quality_issues (calculate_derived_metrics df))) = 1
    \<and> length (calculate_derived_metrics df) = length df
    \<and> calculate_derived_metrics df ! i = derive_row (df ! i)
    \<and> calculate_derived_metrics df ! j = derive_row (df ! j)"
proof -
  let ?out = "calculate_derived_metrics df"
  have eq: "?out ! i = ?out ! j" using assms by (simp add: calc_nth)
  have jn: "j < length ?out" using assms by (simp add: calc_length)
  have "0 < length (filter (\<lambda>b. b) (duplicated ?out))"
    by (rule duplicated_pos [OF assms(1) jn eq])
  then show ?thesis
    using assms by (simp add: issues_duplicate calc_length calc_nth)
qed

theorem duplicate_flagged_once_rows_kept_witness:
  "(0::nat) < 1 \<and> (1::nat) < length 
        [\<lparr>sessions_total = Finite 10, units_ordered = Finite 5, sales_total = Finite 20,
          buy_box_percentage = Finite 90, other_columns = [Str (asc ''A1'')]\<rparr>,
         \<lparr>sessions_total = Finite 10, units_ordered = Finite 5, sales_total = Finite 20,
          buy_box_percentage = Finite 90, other_columns = [Str (asc ''A1'')]\<rparr>]
   \<and> length (issues_of_kind Duplicate
         (identify_data_quality_issues (calculate_derived_metrics 
        [\<lparr>sessions_total = Finite 10, units_ordered = Finite 5, sales_total = Finite 20,
          buy_box_percentage = Finite 90, other_columns = [Str (asc ''A1'')]\<rparr>,
         \<lparr>sessions_total = Finite 10, units_ordered = Finite 5, sales_total = Finite 20,
          buy_box_percentage = Finite 90, other_columns = [Str (asc ''A1'')]\<rparr>]))) = 1
   \<and> length (calculate_derived_metrics 
        [\<lparr>sessions_total = Finite 10, units_ordered = Finite 5, sales_total = Finite 20,
          buy_box_percentage = Finite 90, other_columns = [Str (asc ''A1'')]\<rparr>,
         \<lparr>sessions_total = Finite 10, units_ordered = Finite 5, sales_total = Finite 20,
          buy_box_percentage = Finite 90, other_columns = [Str (asc ''A1'')]\<rparr>]) = 2"
  using duplicate_flagged_once_rows_kept [of 0 1 "
        [\<lparr>sessions_total = Finite 10, units_ordered = Finite 5, sales_total = Finite 20,
          buy_box_percentage = Finite 90, other_columns = [Str (asc ''A1'')]\<rparr>,
         \<lparr>sessions_total = Finite 10, units_ordered = Finite 5, sales_total = Finite 20,
          buy_box_percentage = Finite 90, other_columns = [Str (asc ''A1'')]\<rparr>]"]
  by simp

subsection \<open>Lemmas on the parsers\<close>

lemma py_float_error: "py_float s = Inl e \<Longrightarrow> e = ValueError"
  by (auto simp: py_float_def split: option.splits)

lemma parse_currency_total: "\<exists>x. parse_currency v = Inr x"
  by (auto simp: parse_currency_def Let_def split: option.splits sum.splits)

lemma parse_number_total: "\<exists>n. parse_number v = Inr n"
  by (auto simp: parse_number_def Let_def split: option.splits sum.splits)

lemma weekly_parse_currency_total: "\<exists>x. weekly_parse_currency c = Inr x"
  by (auto simp: weekly_parse_currency_def Let_def
      split: csv_cell.splits sum.splits pyerror.splits dest: py_float_error)

lemma parse_percentage_total: "\<exists>x. parse_percentage c = Inr x"
  by (auto simp: parse_percentage_def Let_def
      split: csv_cell.splits sum.splits pyerror.splits dest: py_float_error)

lemma collect_error: "collect xs = Inl e \<Longrightarrow> Inl e \<in> set xs"
  by (induction xs) (auto split: sum.splits)

lemma collect_raises: "Inl e \<in> set xs \<Longrightarrow> \<exists>e'. collect xs = Inl e'"
  by (induction xs) (auto split: sum.splits)

lemma cell_to_float_error: "cell_to_float c = Inl e \<Longrightarrow> e = ValueError"
  by (cases c) (auto simp: cell_to_float_def dest: py_float_error)

lemma astype_float_error: "astype_float col = Inl e \<Longrightarrow> e = ValueError"
proof -
  assume "astype_float col = Inl e"
  then have "Inl e \<in> set (map cell_to_float col)"
    unfolding astype_float_def by (rule collect_error)
  then obtain c where "cell_to_float c = Inl e"
    by auto
  then show ?thesis
    by (rule cell_to_float_error)
qed

lemma astype_float_raises:
  assumes "i < length col" "col ! i = Text s" "py_float s = Inl e"
  shows "astype_float col = Inl ValueError"
proof -
  have "cell_to_float (col ! i) = Inl e"
    using assms by (simp add: cell_to_float_def)
  then have "Inl e \<in> set (map cell_to_float col)"
    using assms(1) by (metis length_map nth_map nth_mem)
  then obtain e' where "astype_float col = Inl e'"
    unfolding astype_float_def using collect_raises by blast
  then show ?thesis
    using astype_float_error by blast
qed

lemma dropWhile_keeps: "x \<in> set xs \<Longrightarrow> \<not> P x \<Longrightarrow> x \<in> set (dropWhile P xs)"
  by (induction xs) auto

lemma strip_keeps: "x \<in> set s \<Longrightarrow> \<not> py_isspace x \<Longrightarrow> x \<in> set (strip s)"
  by (simp add: strip_def dropWhile_keeps)

lemma num_strip_keeps: "x \<in> set s \<Longrightarrow> \<not> num_isspace x \<Longrightarrow> x \<in> set (num_strip s)"
  by (simp add: num_strip_def dropWhile_keeps)

lemma dropWhile_none: "\<forall>c\<in>set s. \<not> P c \<Longrightarrow> dropWhile P s = s"
  by (cases s) auto

lemma strip_none: "\<forall>c\<in>set s. \<not> py_isspace c \<Longrightarrow> strip s = s"
  by (simp add: strip_def dropWhile_none)

lemma num_strip_none: "\<forall>c\<in>set s. \<not> num_isspace c \<Longrightarrow> num_strip s = s"
  by (simp add: num_strip_def dropWhile_none)

lemma digit_not_space: "is_digit c \<or> c = 44 \<Longrightarrow> \<not> py_isspace c \<and> \<not> num_isspace c"
  by (auto simp: is_digit_def py_isspace_def num_isspace_def)

lemma digitpart_chars: "digitpart cs \<Longrightarrow> c \<in> set cs \<Longrightarrow> is_digit c \<or> c = 95"
  by (induction cs rule: digitpart.induct) (auto split: if_splits)

lemma digitpart_all_digits: "cs \<noteq> [] \<Longrightarrow> \<forall>c\<in>set cs. is_digit c \<Longrightarrow> digitpart cs"
  by (induction cs rule: digitpart.induct) (auto simp: is_digit_def)

lemma py_int_point: "46 \<in> set s \<Longrightarrow> py_int s = Inl ValueError"
proof -
  assume "46 \<in> set s"
  then have m: "46 \<in> set (num_strip s)"
    by (rule num_strip_keeps) (simp add: num_isspace_def py_isspace_def)
  then obtain c cs where cs: "num_strip s = c # cs"
    by (cases "num_strip s") auto
  have nd: "\<not> digitpart (c # cs)"
    using digitpart_chars [of "c # cs" 46] m cs by (auto simp: is_digit_def)
  have "c \<noteq> 46 \<Longrightarrow> \<not> digitpart cs"
    using digitpart_chars [of cs 46] m cs by (auto simp: is_digit_def)
  then show ?thesis
    using nd cs by (auto simp: py_int_def parse_digits_def)
qed

lemma parse_number_point: "46 \<in> set s \<Longrightarrow> parse_number (Some s) = Inr 0"
proof -
  assume a: "46 \<in> set s"
  then have "46 \<in> set (strip s)"
    by (rule strip_keeps) (simp add: py_isspace_def)
  then have "46 \<in> set (filter (\<lambda>c. c \<noteq> 44) (strip s))"
    by simp
  then have "py_int (filter (\<lambda>c. c \<noteq> 44) (strip s)) = Inl ValueError"
    by (rule py_int_point)
  then show ?thesis
    by (simp add: parse_number_def)
qed

lemma py_int_digits:
  assumes "ds \<noteq> []" "\<forall>c\<in>set ds. is_digit c" "length ds \<le> int_max_str_digits"
  shows "py_int ds = Inr (int (digits_value ds))"
proof -
  have s: "num_strip ds = ds"
    using assms(2) digit_not_space by (simp add: num_strip_none)
  obtain c cs where cs: "ds = c # cs"
    using assms(1) by (cases ds) auto
  then have c: "c \<noteq> 45" "c \<noteq> 43"
    using assms(2) by (auto simp: is_digit_def)
  have f: "filter is_digit ds = ds"
    using assms(2) by simp
  have "parse_digits ds = Some (digits_value ds)"
    using assms digitpart_all_digits [of ds] by (simp add: parse_digits_def f)
  then show ?thesis
    using s cs c by (simp add: py_int_def)
qed

lemma filter_commas_digits:
  "\<forall>c\<in>set t. is_digit c \<or> c = 44 \<Longrightarrow> filter (\<lambda>c. c \<noteq> 44) t = filter is_digit t"
  by (induction t) (auto simp: is_digit_def)

lemma digits_commas_strip: "\<forall>c\<in>set t. is_digit c \<or> c = 44 \<Longrightarrow> strip t = t"
  using digit_not_space by (simp add: strip_none)

lemma digits_nonempty: "\<exists>c\<in>set t. is_digit c \<Longrightarrow> filter is_digit t \<noteq> []"
  by (auto simp: filter_empty_conv)

lemma py_int_filter_digits:
  assumes "\<exists>c\<in>set t. is_digit c" "length (filter is_digit t) \<le> int_max_str_digits"
  shows "py_int (filter is_digit t) = Inr (int (digits_value (filter is_digit t)))"
  using assms digits_nonempty [of t] by (intro py_int_digits) simp_all

lemma digits_value_filter: "digits_value (filter is_digit t) = digits_value t"
  by (simp add: digits_value_def)

lemma parse_number_digits_commas:
  assumes "\<forall>c\<in>set t. is_digit c \<or> c = 44" "\<exists>c\<in>set t. is_digit c"
    "length (filter is_digit t) \<le> int_max_str_digits"
  shows "parse_number (Some t) = Inr (int (digits_value t))"
proof -
  have e: "filter (\<lambda>c. c \<noteq> 44) t = filter is_digit t"
    using assms(1) by (rule filter_commas_digits)
  have s: "strip t = t"
    using assms(1) by (rule digits_commas_strip)
  have ne: "t \<noteq> []"
    using assms(2) by auto
  have p: "py_int (filter is_digit t) = Inr (int (digits_value t))"
    using py_int_filter_digits [OF assms(2,3)] by (simp only: digits_value_filter)
  show ?thesis
    unfolding parse_number_def by (simp add: s ne e p)
qed

lemma parse_number_blank: "strip t = [] \<Longrightarrow> parse_number (Some t) = Inr 0"
  by (simp add: parse_number_def)

subsection \<open>No parser function raises\<close>

text \<open>
  The parser functions \<^verbatim>\<open>parse_currency\<close> and \<^verbatim>\<open>parse_number\<close> of
  analyze-best-sellers.py and \<^verbatim>\<open>parse_currency\<close> and \<^verbatim>\<open>parse_percentage\<close> of
  weekly-sales-comparison.py return a value for every input and never raise; where the
  text left after cleaning is no number, the value is the default (0.0 for currency, 0 for
  counts). The column conversion of \<^verbatim>\<open>load_and_clean_data\<close> in
  enhanced\_traffic\_conversion\_analysis.py is different: a sessions cell that is no
  number after its commas are removed raises \<^verbatim>\<open>ValueError\<close> out of the function.
\<close>

lemma parser_functions_never_raise:
  "(\<exists>x. parse_currency v = Inr x)
   \<and> (\<exists>n. parse_number v = Inr n)
   \<and> (\<exists>x. weekly_parse_currency c = Inr x)
   \<and> (\<exists>x. parse_percentage c = Inr x)
   \<and> (strip s \<noteq> [] \<and> py_float (filter (\<lambda>c. c \<noteq> 163 \<and> c \<noteq> 44) (strip s)) = Inl e \<longrightarrow>
        parse_currency (Some s) = Inr (Finite 0))
   \<and> (strip s \<noteq> [] \<and> py_int (filter (\<lambda>c. c \<noteq> 44) (strip s)) = Inl e \<longrightarrow>
        parse_number (Some s) = Inr 0)
   \<and> (i < length df \<and> tr_sessions (df ! i) = Text s \<and> py_float (remove_char 44 s) = Inl e \<longrightarrow>
        load_and_clean_data rnd df = Inl ValueError)"
proof -
  have "load_and_clean_data rnd df = Inl ValueError"
    if "i < length df" "tr_sessions (df ! i) = Text s" "py_float (remove_char 44 s) = Inl e"
  proof -
    let ?col = "map (\<lambda>r. Text (remove_char 44 (astype_str (tr_sessions r)))) df"
    have "?col ! i = Text (remove_char 44 s)"
      using that by (simp add: astype_str_def)
    then have "astype_float ?col = Inl ValueError"
      using that astype_float_raises [of i ?col "remove_char 44 s" e] by simp
    then show ?thesis
      by (simp add: load_and_clean_data_def)
  qed
  moreover have "parse_currency (Some s) = Inr (Finite 0)"
    if "strip s \<noteq> []" "py_float (filter (\<lambda>c. c \<noteq> 163 \<and> c \<noteq> 44) (strip s)) = Inl e"
    using that by (auto simp: parse_currency_def)
  moreover have "parse_number (Some s) = Inr 0"
    if "strip s \<noteq> []" "py_int (filter (\<lambda>c. c \<noteq> 44) (strip s)) = Inl e"
    using that by (auto simp: parse_number_def)
  ultimately show ?thesis
    using parse_currency_total parse_number_total weekly_parse_currency_total
      parse_percentage_total by blast
qed

text \<open>The theorem at the text abc, as a field and as the sessions cell of a one-row
  frame.\<close>

lemma parser_functions_never_raise_at_abc:
  "strip (asc ''abc'') \<noteq> []
   \<and> py_float (filter (\<lambda>c. c \<noteq> 163 \<and> c \<noteq> 44) (strip (asc ''abc''))) = Inl ValueError
   \<and> py_int (filter (\<lambda>c. c \<noteq> 44) (strip (asc ''abc''))) = Inl ValueError
   \<and> parse_currency (Some (asc ''abc'')) = Inr (Finite 0)
   \<and> parse_number (Some (asc ''abc'')) = Inr 0
   \<and> load_and_clean_data rnd
        [\<lparr>tr_sessions = Text (asc ''abc''), tr_units = Text (asc ''5''),
          tr_sales = Text (asc ''10'')\<rparr>] = Inl ValueError"
proof -
  have s: "strip (asc ''abc'') = asc ''abc''"
    by (simp add: parser_defs)
  have f: "py_float (asc ''abc'') = Inl ValueError"
    by (simp add: parser_defs)
  have n: "py_int (asc ''abc'') = Inl ValueError"
    by (simp add: parser_defs)
  have c: "filter (\<lambda>c. c \<noteq> 163 \<and> c \<noteq> 44) (asc ''abc'') = asc ''abc''"
    "filter (\<lambda>c. c \<noteq> 44) (asc ''abc'') = asc ''abc''" "remove_char 44 (asc ''abc'') = asc ''abc''"
    "asc ''abc'' \<noteq> []"
    by (simp_all add: asc_def remove_char_def)
  show ?thesis
    using parser_functions_never_raise
      [of "Some (asc ''abc'')" Blank "asc ''abc''" ValueError 0
        "[\<lparr>tr_sessions = Text (asc ''abc''), tr_units = Text (asc ''5''),
           tr_sales = Text (asc ''10'')\<rparr>]"]
    by (simp add: s f n c)
qed

text \<open>
  Claim C2. No malformed cell text aborts the parser functions above, which is what the
  claim says of every cell-level parser. \<^verbatim>\<open>load_and_clean_data\<close> of
  enhanced\_traffic\_conversion\_analysis.py does not keep it: a frame whose sessions cell
  is the text abc is not loaded, the \<^verbatim>\<open>ValueError\<close> of \<^verbatim>\<open>astype(float)\<close> leaves the
  function, while \<^verbatim>\<open>parse_currency\<close> and \<^verbatim>\<open>parse_number\<close> give the defaults for the
  same text.
\<close>

theorem load_and_clean_data_raises:
  "load_and_clean_data rnd
     [\<lparr>tr_sessions = Text (asc ''abc''), tr_units = Text (asc ''5''),
       tr_sales = Text (asc ''10'')\<rparr>] = Inl ValueError
   \<and> parse_currency (Some (asc ''abc'')) = Inr (Finite 0)
   \<and> parse_number (Some (asc ''abc'')) = Inr 0"
  by (simp add: load_and_clean_data_def astype_float_def cell_to_float_def parse_currency_def
        parse_number_def parser_defs)

subsection \<open>Currency text\<close>

text \<open>
  Claim C3. \<^verbatim>\<open>parse_currency\<close> of analyze-best-sellers.py maps the text of a pound sign
  followed by 1,234.56 to 1234.56, the empty text to 0.0 and the text of a pound sign
  followed by -50.00 to -50.0. \<^verbatim>\<open>parse_currency\<close> of weekly-sales-comparison.py maps the
  empty text to 0.0 but both pound amounts to 0.0: it removes the two characters
  U+00C2 U+00A3 and leaves a pound sign that stands alone, so the conversion fails; the
  amount is read when those two characters precede it.
\<close>

theorem parse_currency_pound_amounts:
  "parse_currency (Some ([163] @ asc ''1,234.56'')) = Inr (Finite (123456 / 100))
   \<and> parse_currency (Some []) = Inr (Finite 0)
   \<and> parse_currency (Some ([163] @ asc ''-50.00'')) = Inr (Finite (- 50))
   \<and> weekly_parse_currency (Text ([163] @ asc ''1,234.56'')) = Inr (Finite 0)
   \<and> weekly_parse_currency (Text []) = Inr (Finite 0)
   \<and> weekly_parse_currency (Text ([163] @ asc ''-50.00'')) = Inr (Finite 0)
   \<and> weekly_parse_currency (Text ([194, 163] @ asc ''1,234.56'')) = Inr (Finite (123456 / 100))"
  by (simp add: parse_currency_def weekly_parse_currency_def parser_defs)

subsection \<open>Percentage text\<close>

text \<open>
  Claim C4, as amended. Both percentage parsers map the text 37.5% to 37.5. The column
  cleaner \<^verbatim>\<open>clean_percentage_columns\<close> of analyze\_business\_report.py maps an empty
  cell, the empty text and the text nan to NaN, the missing marker, which is not 0.0;
  \<^verbatim>\<open>parse_percentage\<close> of weekly-sales-comparison.py maps an empty cell and the empty
  text to 0.0.
\<close>

theorem percentage_text_values:
  "parse_percentage (Text (asc ''37.5%'')) = Inr (Finite (375 / 10))
   \<and> clean_percentage_cell (Text (asc ''37.5%'')) = Finite (375 / 10)
   \<and> clean_percentage_cell Blank = NaN
   \<and> clean_percentage_cell (Text []) = NaN
   \<and> clean_percentage_cell (Text (asc ''nan'')) = NaN
   \<and> NaN \<noteq> Finite 0
   \<and> parse_percentage Blank = Inr (Finite 0)
   \<and> parse_percentage (Text []) = Inr (Finite 0)"
  by (simp add: parse_percentage_def clean_percentage_cell_def parser_defs)

text \<open>
  Claim C4 as stated fails for \<^verbatim>\<open>parse_percentage\<close> of weekly-sales-comparison.py: its
  first test returns 0.0 for the empty text and for a missing cell.
\<close>

theorem parse_percentage_empty_counterexample:
  "parse_percentage (Text []) = Inr (Finite 0) \<and> parse_percentage Blank = Inr (Finite 0)"
  by (simp add: parse_percentage_def)

subsection \<open>Count text\<close>

text \<open>
  Claim C5, as amended. \<^verbatim>\<open>parse_number\<close> strips the thousands separators: every
  text of ASCII digits and commas that has a digit, and no more than 4300 of them, gives
  the integer its digits denote, the same as the text without its commas. A text that is
  empty or blank gives 0. For every text with a decimal point it also gives 0: the
  conversion to an integer fails and the failure is caught, so nothing is raised and
  nothing is truncated.
\<close>

theorem parse_number_separators_and_point:
  "((\<forall>c\<in>set t. is_digit c \<or> c = 44) \<and> (\<exists>c\<in>set t. is_digit c)
      \<and> length (filter is_digit t) \<le> int_max_str_digits \<longrightarrow>
      parse_number (Some t) = Inr (int (digits_value t))
      \<and> parse_number (Some t) = parse_number (Some (remove_char 44 t)))
   \<and> (strip t = [] \<longrightarrow> parse_number (Some t) = Inr 0)
   \<and> (46 \<in> set s \<longrightarrow> parse_number (Some s) = Inr 0)
   \<and> parse_number (Some []) = Inr 0
   \<and> parse_number (Some (asc ''1,234'')) = Inr 1234"
proof -
  have g: "parse_number (Some t) = Inr (int (digits_value t))
      \<and> parse_number (Some t) = parse_number (Some (remove_char 44 t))"
    if h: "\<forall>c\<in>set t. is_digit c \<or> c = 44" "\<exists>c\<in>set t. is_digit c"
      "length (filter is_digit t) \<le> int_max_str_digits"
  proof -
    let ?u = "remove_char 44 t"
    have e: "filter is_digit ?u = filter is_digit t"
      by (auto simp: remove_char_def is_digit_def intro: filter_cong)
    have "\<forall>c\<in>set ?u. is_digit c \<or> c = 44" "\<exists>c\<in>set ?u. is_digit c"
      using h by (auto simp: remove_char_def is_digit_def)
    then have "parse_number (Some ?u) = Inr (int (digits_value ?u))"
      using h(3) by (intro parse_number_digits_commas) (simp_all add: e)
    moreover have "digits_value ?u = digits_value t"
      by (simp add: digits_value_def e)
    ultimately show ?thesis
      using parse_number_digits_commas [OF h] by simp
  qed
  have "parse_number (Some []) = Inr 0" "parse_number (Some (asc ''1,234'')) = Inr 1234"
    by (simp_all add: parse_number_def parser_defs)
  then show ?thesis
    using g parse_number_blank [of t] parse_number_point [of s] by blast
qed

text \<open>The theorem at the texts 1,234,567 and 12.7 and at a text of two spaces.\<close>

theorem parse_number_separators_and_point_witness:
  "parse_number (Some (asc ''1,234,567'')) = Inr 1234567
   \<and> parse_number (Some (asc ''1,234,567'')) = parse_number (Some (asc ''1234567''))
   \<and> parse_number (Some (asc ''  '')) = Inr 0
   \<and> 46 \<in> set (asc ''12.7'') \<and> parse_number (Some (asc ''12.7'')) = Inr 0"
  using parse_number_separators_and_point [of "asc ''1,234,567''" "asc ''12.7''"]
    parse_number_separators_and_point [of "asc ''  ''" "asc ''12.7''"]
  by (auto simp: asc_def is_digit_def digits_value_def remove_char_def int_max_str_digits_def
        strip_def py_isspace_def)

text \<open>Claim C5 as stated fails at the text 12.7: the result is 0, not 12.\<close>

theorem parse_number_truncation_counterexample:
  "parse_number (Some (asc ''12.7'')) = Inr 0 \<and> parse_number (Some (asc ''12.7'')) \<noteq> Inr 12"
  by (simp add: parse_number_def parser_defs)

subsection \<open>Rows without an identifier\<close>

lemma parse_number_not_error: "parse_number v \<noteq> Inl e"
  using parse_number_total [of v] by auto

lemma parse_currency_not_error: "parse_currency v \<noteq> Inl e"
  using parse_currency_total [of v] by auto

lemma and_then_parse_number:
  "and_then (parse_number v) f = f (projr (parse_number v))"
  using parse_number_total [of v] by (auto simp: and_then_def)

lemma and_then_parse_currency:
  "and_then (parse_currency v) f = f (projr (parse_currency v))"
  using parse_currency_total [of v] by (auto simp: and_then_def)

lemma and_then_strip_field:
  "and_then (strip_field v) f =
     (case v of None \<Rightarrow> Inl AttributeError | Some s \<Rightarrow> f (strip s))"
  by (simp add: and_then_def strip_field_def split: option.splits)

lemma and_then_Inr: "and_then (Inr v) f = f v"
  by (simp add: and_then_def)

lemma and_then_Inl: "and_then (Inl e) f = Inl e"
  by (simp add: and_then_def)

lemma row_totals_total: "\<exists>u a s. row_totals row = Inr (u, a, s)"
  by (simp add: row_totals_def and_then_parse_number and_then_parse_currency)

lemma product_conversion_rate_cases:
  "product_conversion_rate u s =
     (if 0 < s \<and> float_overflow \<le> \<bar>of_int u / of_int s\<bar> then Inl OverflowError
      else Inr (if 0 < s then fmul (Finite (of_int u / of_int s)) (Finite 100) else Finite 0))"
  by (simp add: product_conversion_rate_def int_true_div_def and_then_def)

lemma process_row_cases:
  assumes "row_totals row = Inr (u, a, s)"
  shows "process_row row =
     (case row_get row (asc ''(Parent) ASIN'') [] of
        None \<Rightarrow> Inl AttributeError
      | Some parent \<Rightarrow>
     (case row_get row (asc ''(Child) ASIN'') [] of
        None \<Rightarrow> Inl AttributeError
      | Some child \<Rightarrow>
     (case row_get row (asc ''SKU'') [] of
        None \<Rightarrow> Inl AttributeError
      | Some sk \<Rightarrow>
     (case row_get row (asc ''Title'') [] of
        None \<Rightarrow> Inl AttributeError
      | Some ttl \<Rightarrow>
          if strip sk = [] \<or> strip child = [] then Inr None
          else if 0 < s \<and> float_overflow \<le> \<bar>of_int u / of_int s\<bar> then Inl OverflowError
          else Inr (Some
            \<lparr> parent_asin = strip parent, child_asin = strip child, sku = strip sk,
              title = strip ttl, p_units_ordered = u, sales_value = a, sessions = s,
              p_conversion_rate =
                (if 0 < s then fmul (Finite (of_int u / of_int s)) (Finite 100)
                 else Finite 0) \<rparr>)))))"
  by (simp add: process_row_def and_then_strip_field assms and_then_Inr and_then_Inl
        product_conversion_rate_cases split: option.splits)

lemma process_row_skip:
  "process_row row = Inr None \<Longrightarrow> lacks_sku row \<or> lacks_child_asin row"
proof -
  assume p: "process_row row = Inr None"
  obtain u a s where t: "row_totals row = Inr (u, a, s)"
    using row_totals_total by blast
  show ?thesis
    using p unfolding process_row_cases [OF t]
    by (simp add: lacks_sku_def lacks_child_asin_def split: option.splits if_splits)
qed

lemma process_row_keep:
  "process_row row = Inr (Some p) \<Longrightarrow> \<not> lacks_sku row \<and> \<not> lacks_child_asin row"
proof -
  assume p: "process_row row = Inr (Some p)"
  obtain u a s where t: "row_totals row = Inr (u, a, s)"
    using row_totals_total by blast
  show ?thesis
    using p unfolding process_row_cases [OF t]
    by (simp add: lacks_sku_def lacks_child_asin_def split: option.splits if_splits)
qed

lemma process_row_total:
  "text_fields_present row \<Longrightarrow> quotient_fits row \<Longrightarrow> \<exists>r. process_row row = Inr r"
proof -
  assume f: "text_fields_present row" and q: "quotient_fits row"
  obtain u a s where t: "row_totals row = Inr (u, a, s)"
    using row_totals_total by blast
  have "\<not> (0 < s \<and> float_overflow \<le> \<bar>of_int u / of_int s\<bar>)"
    using q t by (auto simp: quotient_fits_def)
  then show ?thesis
    using f unfolding process_row_cases [OF t]
    by (auto simp: text_fields_present_def split: option.splits)
qed

lemma process_row_overflow:
  assumes "text_fields_present row" "\<not> lacks_sku row" "\<not> lacks_child_asin row"
    "\<not> quotient_fits row"
  shows "process_row row = Inl OverflowError"
proof -
  obtain u a s where t: "row_totals row = Inr (u, a, s)"
    using row_totals_total by blast
  have "0 < s \<and> float_overflow \<le> \<bar>of_int u / of_int s\<bar>"
    using assms(4) t by (auto simp: quotient_fits_def)
  then show ?thesis
    using assms(1,2,3) unfolding process_row_cases [OF t]
    by (auto simp: text_fields_present_def lacks_sku_def lacks_child_asin_def
        split: option.splits)
qed

lemma read_products_length:
  "read_products rows = Inr ps \<Longrightarrow>
   length ps + length (filter (\<lambda>r. lacks_sku r \<or> lacks_child_asin r) rows) = length rows"
proof (induction rows arbitrary: ps)
  case Nil
  then show ?case by simp
next
  case (Cons row rows)
  show ?case
  proof (cases "process_row row")
    case (Inl e)
    with Cons.prems show ?thesis by simp
  next
    case (Inr r)
    show ?thesis
    proof (cases r)
      case None
      with Inr Cons.prems have "read_products rows = Inr ps" by simp
      moreover have "lacks_sku row \<or> lacks_child_asin row"
        using Inr None process_row_skip by blast
      ultimately show ?thesis
        using Cons.IH [of ps] by simp
    next
      case (Some p)
      with Inr Cons.prems obtain qs where qs: "read_products rows = Inr qs" "ps = p # qs"
        by (auto split: sum.splits)
      moreover have "\<not> (lacks_sku row \<or> lacks_child_asin row)"
        using Inr Some process_row_keep by blast
      ultimately show ?thesis
        using Cons.IH [of qs] by simp
    qed
  qed
qed

lemma read_products_total:
  "list_all (\<lambda>r. text_fields_present r \<and> quotient_fits r) rows \<Longrightarrow>
   \<exists>ps. read_products rows = Inr ps"
proof (induction rows)
  case Nil
  then show ?case by simp
next
  case (Cons row rows)
  then obtain r ps where "process_row row = Inr r" "read_products rows = Inr ps"
    using process_row_total by fastforce
  then show ?case
    by (cases r) simp_all
qed

text \<open>
  Claim C9, as amended. The loop drops every row whose SKU or whose child ASIN is empty
  after stripping and appends every other row, so the number of records is the number of
  rows minus the number of rows that lack either of the two; no count of the dropped rows
  is kept. The loop returns whenever, in every row, the four text fields are strings and
  the quotient of the units by the sessions is within the range of a float: a field that
  is \<^verbatim>\<open>None\<close> raises \<^verbatim>\<open>AttributeError\<close>, and a row that is kept with a quotient too
  large raises \<^verbatim>\<open>OverflowError\<close>. Ten rows of which two lack the SKU, the others having
  both, give eight records.
\<close>

theorem products_count:
  "(read_products rows = Inr ps \<longrightarrow>
      length ps =
        length rows - length (filter (\<lambda>r. lacks_sku r \<or> lacks_child_asin r) rows))
   \<and> (list_all (\<lambda>r. text_fields_present r \<and> quotient_fits r) rows \<longrightarrow>
        (\<exists>qs. read_products rows = Inr qs))
   \<and> (text_fields_present row \<and> \<not> lacks_sku row \<and> \<not> lacks_child_asin row
        \<and> \<not> quotient_fits row \<longrightarrow> read_products (row # rows) = Inl OverflowError)"
  using read_products_length [of rows ps] read_products_total [of rows]
    process_row_overflow [of row]
  by auto

lemma foldl_decimal_zeros:
  "foldl (\<lambda>a c. 10 * a + (c - 48)) (a::nat) (replicate n (48::nat)) = a * 10 ^ n"
  by (induction n arbitrary: a) (simp_all add: mult_ac)

lemma digits_value_zeros:
  "is_digit c \<Longrightarrow> digits_value (c # replicate n 48) = (c - 48) * 10 ^ n"
  by (simp add: digits_value_def is_digit_def foldl_decimal_zeros)

text \<open>
  The theorem at ten rows, eight with a SKU and a child ASIN and two with an empty SKU,
  and at a row with a unit count of 2 followed by 309 zeros in one session.
\<close>

theorem products_count_witness:
  "(\<exists>ps. read_products
       (replicate 8 [(asc ''SKU'', Some (asc ''A1'')), (asc ''(Child) ASIN'', Some (asc ''B0''))]
        @ replicate 2 [(asc ''SKU'', Some []), (asc ''(Child) ASIN'', Some (asc ''B0''))])
      = Inr ps \<and> length ps = 8)
   \<and> read_products
        [[(asc ''SKU'', Some (asc ''A1'')), (asc ''(Child) ASIN'', Some (asc ''B0'')),
          (asc ''Units ordered'', Some (50 # replicate 309 48)),
          (asc ''Sessions '' @ en_dash # asc '' Total'', Some (asc ''1''))]]
      = Inl OverflowError"
proof -
  let ?ok = "[(asc ''SKU'', Some (asc ''A1'')), (asc ''(Child) ASIN'', Some (asc ''B0''))]"
  let ?bad = "[(asc ''SKU'', Some []), (asc ''(Child) ASIN'', Some (asc ''B0''))]"
  let ?big = "[(asc ''SKU'', Some (asc ''A1'')), (asc ''(Child) ASIN'', Some (asc ''B0'')),
          (asc ''Units ordered'', Some (50 # replicate 309 48)),
          (asc ''Sessions '' @ en_dash # asc '' Total'', Some (asc ''1''))]"
  let ?rows = "replicate 8 ?ok @ replicate 2 ?bad"
  have s: "strip (asc ''A1'') \<noteq> []" "strip (asc ''B0'') \<noteq> []" "strip [] = []"
    by (simp_all add: asc_def strip_def py_isspace_def)
  have p: "parse_number (Some (asc ''0'')) = Inr 0" "parse_number (Some (asc ''1'')) = Inr 1"
    "parse_currency (Some ([163] @ asc ''0'')) = Inr (Finite 0)"
    by (simp_all add: parse_number_def parse_currency_def parser_defs)
  have g: "row_get ?ok (asc ''(Parent) ASIN'') [] = Some []"
    "row_get ?ok (asc ''(Child) ASIN'') [] = Some (asc ''B0'')"
    "row_get ?ok (asc ''SKU'') [] = Some (asc ''A1'')"
    "row_get ?ok (asc ''Title'') [] = Some []"
    "row_get ?bad (asc ''(Parent) ASIN'') [] = Some []"
    "row_get ?bad (asc ''(Child) ASIN'') [] = Some (asc ''B0'')"
    "row_get ?bad (asc ''SKU'') [] = Some []"
    "row_get ?bad (asc ''Title'') [] = Some []"
    "row_get ?big (asc ''(Parent) ASIN'') [] = Some []"
    "row_get ?big (asc ''(Child) ASIN'') [] = Some (asc ''B0'')"
    "row_get ?big (asc ''SKU'') [] = Some (asc ''A1'')"
    "row_get ?big (asc ''Title'') [] = Some []"
    by (simp_all add: row_get_def asc_def en_dash_def)
  have t: "row_totals ?ok = Inr (0, Finite 0, 0)" "row_totals ?bad = Inr (0, Finite 0, 0)"
    by (simp_all add: row_totals_def row_get_def asc_def en_dash_def and_then_Inr
          p [unfolded asc_def, simplified] fin_small)
  have u: "parse_number (Some (50 # replicate 309 48)) =
      Inr (int (digits_value (50 # replicate 309 48)))"
    by (rule parse_number_digits_commas)
      (auto simp: is_digit_def int_max_str_digits_def)
  have tb: "row_totals ?big = Inr (int (digits_value (50 # replicate 309 48)), Finite 0, 1)"
    by (simp add: row_totals_def row_get_def asc_def en_dash_def and_then_Inr u
          p [unfolded asc_def, simplified] fin_small del: replicate.simps)
  have v: "digits_value (50 # replicate 309 48) = 2 * 10 ^ 309"
    by (simp add: digits_value_zeros is_digit_def)
  have ok: "text_fields_present ?ok" "\<not> lacks_sku ?ok" "\<not> lacks_child_asin ?ok"
    "quotient_fits ?ok"
    by (simp_all add: text_fields_present_def lacks_sku_def lacks_child_asin_def
          quotient_fits_def g s t)
  have bad: "text_fields_present ?bad" "lacks_sku ?bad" "quotient_fits ?bad"
    by (simp_all add: text_fields_present_def lacks_sku_def quotient_fits_def g s t)
  have big: "text_fields_present ?big" "\<not> lacks_sku ?big" "\<not> lacks_child_asin ?big"
    by (simp_all add: text_fields_present_def lacks_sku_def lacks_child_asin_def g s)
  have nf: "\<not> quotient_fits ?big"
    by (simp add: quotient_fits_def tb v float_overflow_def)
  have "list_all (\<lambda>r. text_fields_present r \<and> quotient_fits r) ?rows"
    using ok bad by (simp add: list_all_iff)
  then obtain ps where ps: "read_products ?rows = Inr ps"
    using products_count [of ?rows] by blast
  have "length (filter (\<lambda>r. lacks_sku r \<or> lacks_child_asin r) ?rows) = 2"
    using ok bad by simp
  then have "length ps = 8"
    using ps products_count [of ?rows ps] by simp
  moreover have "read_products [?big] = Inl OverflowError"
    using products_count [of "[]" "[]" ?big] big nf by blast
  ultimately show ?thesis
    using ps by blast
qed

text \<open>
  Claim C9 as stated fails at a row that has a SKU and an empty child ASIN: it lacks no
  SKU and is dropped, so one row without any row lacking its SKU gives no record.
\<close>

theorem row_without_child_asin_counterexample:
  "\<not> lacks_sku [(asc ''SKU'', Some (asc ''A1'')), (asc ''(Child) ASIN'', Some [])]
   \<and> read_products [[(asc ''SKU'', Some (asc ''A1'')), (asc ''(Child) ASIN'', Some [])]] = Inr []"
proof -
  let ?row = "[(asc ''SKU'', Some (asc ''A1'')), (asc ''(Child) ASIN'', Some [])]"
  have s: "strip (asc ''A1'') \<noteq> []" "strip [] = []"
    by (simp_all add: asc_def strip_def py_isspace_def)
  have g: "row_get ?row (asc ''(Parent) ASIN'') [] = Some []"
    "row_get ?row (asc ''(Child) ASIN'') [] = Some []"
    "row_get ?row (asc ''SKU'') [] = Some (asc ''A1'')"
    "row_get ?row (asc ''Title'') [] = Some []"
    by (simp_all add: row_get_def asc_def)
  obtain u a n where t: "row_totals ?row = Inr (u, a, n)"
    using row_totals_total by blast
  have "process_row ?row = Inr None"
    unfolding process_row_cases [OF t] by (simp add: g s)
  then show ?thesis
    by (simp add: lacks_sku_def g s)
qed

end
